theory Spec2Isabelle
  imports Complex_Main "HOL-Library.AList"
begin

section \<open>The armature pose sensor of MORSE (morse/sensors/armature_pose.py)\<close>

text \<open>
  The class \<open>ArmaturePose\<close> reads the joint values of the armature it is parented to.
  Its methods are embedded as functions over an explicit sensor state: every method
  takes the scene, the component registry and the sensor, and returns the sensor as the
  call leaves it together with either the exception the Python raises or the value it
  returns.

  Joint values are Python floats. No method but \<open>get_joints_length\<close> computes with
  them; they are modelled as reals and copied as they are.
\<close>

subsection \<open>Exceptions\<close>

text \<open>
  The exceptions the methods can raise. \<open>AttributeError a\<close> is Python's error for
  reading attribute \<open>a\<close> of an object that has none of that name (\<open>None\<close> among
  them); \<open>StopIteration\<close> is what \<open>next\<close> raises on an exhausted generator;
  \<open>RecursionError\<close> is raised by a call that would exceed the interpreter's recursion
  limit;
  \<open>ActuatorError\<close> stands for whatever the armature actuator's helper \<open>_get_joint\<close>
  raises (the docstring of \<open>get_joint\<close>: an exception if the joint does not exist).
\<close>

datatype error =
    AttributeError string
  | KeyError string
  | IndexError
  | StopIteration
  | RecursionError
  | ActuatorError string

type_synonym 'a result = "error + 'a"

subsection \<open>Scene objects, channels and the armature actuator\<close>

type_synonym vec3 = "real \<times> real \<times> real"

text \<open>\<open>v[i]\<close> on a 3-vector: indices 0, 1, 2; any other index raises.\<close>

definition vec_index :: "vec3 \<Rightarrow> nat \<Rightarrow> real result" where
  "vec_index v i =
     (case v of (x, y, z) \<Rightarrow>
        if i = 0 then Inr x else if i = 1 then Inr y else if i = 2 then Inr z
        else Inl IndexError)"

text \<open>\<open>xs[i]\<close> on a Python list, for the non-negative indices the code uses.\<close>

definition list_index :: "'a list \<Rightarrow> nat \<Rightarrow> 'a result" where
  "list_index xs i = (if i < length xs then Inr (xs ! i) else Inl IndexError)"

text \<open>
  A channel (bone) of an armature, with the attributes the sensor reads: \<open>get_joint\<close>
  reads the head position as \<open>head_pose\<close> (line 135), \<open>get_joints_length\<close> reads
  \<open>pose_head\<close> and \<open>pose_tail\<close> (line 150). The channel class belongs to the host;
  each attribute is taken as the host provides it.
\<close>

record channel =
  name :: string
  joint_rotation :: vec3
  head_pose :: vec3
  pose_head :: vec3
  pose_tail :: vec3

text \<open>
  A Blender object: its name, its parent (\<open>None\<close> at the top of the hierarchy) and,
  when the object is an armature, its channels (\<open>None\<close>: \<open>hasattr(obj, "channels")\<close>
  is false). The scene is the store of objects, addressed by reference.
\<close>

record bobject =
  o_name :: string
  o_parent :: "nat option"
  o_channels :: "channel list option"

type_synonym scene = "nat \<Rightarrow> bobject"

text \<open>
  The armature actuator is a component of MORSE of its own; the sensor only calls it.
  Its three members the sensor uses are taken as they come, with no assumption on what
  they compute: the helper \<open>_get_joint(joint)\<close> (a channel and whether it is
  prismatic, or an exception), the helper \<open>find_dof(channel)\<close> (the list of the
  channel's degrees of freedom, read by truth value) and the dictionary \<open>_dofs\<close>
  (joint name to such a list; Python's \<open>True == 1\<close> holds).
\<close>

record actuator =
  act_get_joint :: "string \<Rightarrow> (channel \<times> bool) result"
  find_dof :: "channel \<Rightarrow> bool list"
  dofs :: "string \<rightharpoonup> bool list"

text \<open>\<open>blenderapi.persistantstorage().componentDict\<close>: component name to component.\<close>

type_synonym component_dict = "string \<rightharpoonup> actuator"

subsection \<open>The sensor\<close>

text \<open>
  The attribute \<open>_armature_actuator\<close> is assigned by the constructor only when an
  armature was found; until then reading it raises.
\<close>

datatype actuator_ref = Unset | PyNone | Bound actuator

record sensor =
  blender_obj :: nat
  armature :: "nat option"
  armature_actuator :: actuator_ref
  local_data :: "(string \<times> real) list"

text \<open>
  \<open>_get_armature\<close>: the object itself if it has channels, else nothing at the top,
  else the same for the parent. Every parent link costs one recursive Python call, and
  a call that finds the interpreter's recursion limit reached raises
  \<open>RecursionError\<close>: \<open>depth\<close> is the number of nested calls the interpreter still
  allows when \<open>_get_armature\<close> is entered (with the default limit of 1000 it is below
  1000).
\<close>

fun get_armature :: "nat \<Rightarrow> scene \<Rightarrow> nat \<Rightarrow> nat option result" where
  "get_armature 0 sc obj = Inl RecursionError"
| "get_armature (Suc depth) sc obj =
     (if o_channels (sc obj) \<noteq> None then Inr (Some obj)
      else (case o_parent (sc obj) of
              None \<Rightarrow> Inr None
            | Some p \<Rightarrow> get_armature depth sc p))"

text \<open>
  Modelled from the spec: the constructor of the base class
  (\<open>morse.core.sensor.Sensor.__init__\<close>, defined outside this module) keeps the Blender
  object and creates the Joint State Mapping \<open>local_data\<close> empty. The two attributes
  of \<open>ArmaturePose\<close> itself are not assigned yet.
\<close>

definition Sensor_init :: "nat \<Rightarrow> sensor" where
  "Sensor_init obj =
     \<lparr>blender_obj = obj, armature = None, armature_actuator = Unset, local_data = []\<rparr>"

text \<open>\<open>self.local_data[key] = v\<close>: an ordered dictionary, overwritten in place.\<close>

definition set_local_data :: "string \<Rightarrow> real \<Rightarrow> sensor \<Rightarrow> sensor" where
  "set_local_data key v self = self\<lparr>local_data := AList.update key v (local_data self)\<rparr>"

text \<open>
  \<open>__init__\<close>: without an armature the constructor logs an error and returns at once;
  otherwise it sets \<open>_armature_actuator = None\<close> and enters every channel into
  \<open>local_data\<close> with value 0.0. An exception of \<open>_get_armature\<close> leaves the
  constructor, and no sensor is made.
\<close>

definition init :: "nat \<Rightarrow> scene \<Rightarrow> nat \<Rightarrow> sensor result" where
  "init depth sc obj =
     (case get_armature depth sc (blender_obj (Sensor_init obj)) of
        Inl e \<Rightarrow> Inl e
      | Inr found \<Rightarrow>
          (let self = (Sensor_init obj)\<lparr>armature := found\<rparr> in
           case found of
             None \<Rightarrow> Inr self
           | Some a \<Rightarrow>
               (case o_channels (sc a) of
                  None \<Rightarrow> Inl (AttributeError ''channels'')
                | Some chs \<Rightarrow>
                    Inr (fold (\<lambda>channel. set_local_data (name channel) 0) chs
                           (self\<lparr>armature_actuator := PyNone\<rparr>)))))"

text \<open>
  \<open>_get_armature_actuator\<close>: binds the actuator registered under the armature's name,
  if there is an armature and such a component; otherwise changes nothing.
\<close>

definition get_armature_actuator :: "scene \<Rightarrow> component_dict \<Rightarrow> sensor \<Rightarrow> sensor" where
  "get_armature_actuator sc component_dict self =
     (case armature self of
        None \<Rightarrow> self
      | Some a \<Rightarrow>
          (case component_dict (o_name (sc a)) of
             None \<Rightarrow> self
           | Some act \<Rightarrow> self\<lparr>armature_actuator := Bound act\<rparr>))"

text \<open>
  \<open>if not self._armature_actuator: self._get_armature_actuator()\<close>, once the attribute
  is known to exist: an actuator object is true, \<open>None\<close> is false.
\<close>

definition bind_if_unbound :: "scene \<Rightarrow> component_dict \<Rightarrow> sensor \<Rightarrow> sensor" where
  "bind_if_unbound sc component_dict self =
     (case armature_actuator self of
        Bound act \<Rightarrow> self
      | _ \<Rightarrow> get_armature_actuator sc component_dict self)"

text \<open>\<open>self.armature.channels\<close>, which raises when the armature is \<open>None\<close>.\<close>

definition armature_channels :: "scene \<Rightarrow> sensor \<Rightarrow> channel list result" where
  "armature_channels sc self =
     (case armature self of
        None \<Rightarrow> Inl (AttributeError ''channels'')
      | Some a \<Rightarrow>
          (case o_channels (sc a) of
             None \<Rightarrow> Inl (AttributeError ''channels'')
           | Some chs \<Rightarrow> Inr chs))"

definition get_joints :: "scene \<Rightarrow> sensor \<Rightarrow> sensor \<times> string list result" where
  "get_joints sc self =
     (self, case armature_channels sc self of
              Inl e \<Rightarrow> Inl e
            | Inr chs \<Rightarrow> Inr (map name chs))"

text \<open>
  Lines 129 to 137 of \<open>get_joint\<close>, for the actuator in hand: the channel and its kind
  from the actuator's \<open>_get_joint\<close>, the index of the first true entry of
  \<open>find_dof(channel)\<close> (\<open>next\<close> over a generator), and that component of the head
  position (prismatic) or of the joint rotation (revolute).
\<close>

definition resolve_joint :: "actuator \<Rightarrow> string \<Rightarrow> real result" where
  "resolve_joint act joint =
     (case act_get_joint act joint of
        Inl e \<Rightarrow> Inl e
      | Inr (channel, is_prismatic) \<Rightarrow>
          (case List.find snd (enumerate 0 (find_dof act channel)) of
             None \<Rightarrow> Inl StopIteration
           | Some (axis_index, j) \<Rightarrow>
               if is_prismatic then vec_index (head_pose channel) axis_index
               else vec_index (joint_rotation channel) axis_index))"

definition get_joint :: "scene \<Rightarrow> component_dict \<Rightarrow> sensor \<Rightarrow> string \<Rightarrow> sensor \<times> real result" where
  "get_joint sc component_dict self joint =
     (case armature_actuator self of
        Unset \<Rightarrow> (self, Inl (AttributeError ''_armature_actuator''))
      | _ \<Rightarrow>
          (let self' = bind_if_unbound sc component_dict self in
           (self', case armature_actuator self' of
                     Bound act \<Rightarrow> resolve_joint act joint
                   | _ \<Rightarrow> Inl (AttributeError ''_get_joint''))))"

text \<open>
  \<open>get_state\<close>: a fresh dictionary, filled channel by channel through \<open>get_joint\<close>;
  an exception of \<open>get_joint\<close> leaves the loop and the method.
\<close>

fun get_state_loop ::
  "scene \<Rightarrow> component_dict \<Rightarrow> sensor \<Rightarrow> channel list \<Rightarrow> (string \<times> real) list
     \<Rightarrow> sensor \<times> (string \<times> real) list result" where
  "get_state_loop sc cd self [] joints = (self, Inr joints)"
| "get_state_loop sc cd self (channel # rest) joints =
     (case get_joint sc cd self (name channel) of
        (self', Inl e) \<Rightarrow> (self', Inl e)
      | (self', Inr v) \<Rightarrow>
          get_state_loop sc cd self' rest (AList.update (name channel) v joints))"

definition get_state ::
  "scene \<Rightarrow> component_dict \<Rightarrow> sensor \<Rightarrow> sensor \<times> (string \<times> real) list result" where
  "get_state sc cd self =
     (case armature_channels sc self of
        Inl e \<Rightarrow> (self, Inl e)
      | Inr chs \<Rightarrow> get_state_loop sc cd self chs [])"

text \<open>\<open>get_joints_length\<close>: the distance between a channel's head and tail.\<close>

definition channel_length :: "channel \<Rightarrow> real" where
  "channel_length channel =
     (case pose_head channel of (hx, hy, hz) \<Rightarrow>
      case pose_tail channel of (tx, ty, tz) \<Rightarrow>
        sqrt ((hx - tx)\<^sup>2 + (hy - ty)\<^sup>2 + (hz - tz)\<^sup>2))"

definition get_joints_length :: "scene \<Rightarrow> sensor \<Rightarrow> sensor \<times> (string \<times> real) list result" where
  "get_joints_length sc self =
     (self, case armature_channels sc self of
              Inl e \<Rightarrow> Inl e
            | Inr chs \<Rightarrow>
                Inr (fold (\<lambda>channel. AList.update (name channel) (channel_length channel))
                       chs []))"

text \<open>
  The body of the loop of \<open>default_action\<close> for one channel: the rotation component 1
  if entry 1 of the channel's \<open>_dofs\<close> equals 1, else the rotation component 2 if
  entry 2 does, else nothing is written.
\<close>

definition default_action_channel :: "sensor \<Rightarrow> channel \<Rightarrow> sensor \<times> unit result" where
  "default_action_channel self channel =
     (let segment_angle = joint_rotation channel in
      case armature_actuator self of
        Unset \<Rightarrow> (self, Inl (AttributeError ''_armature_actuator''))
      | PyNone \<Rightarrow> (self, Inl (AttributeError ''_dofs''))
      | Bound act \<Rightarrow>
          (case dofs act (name channel) of
             None \<Rightarrow> (self, Inl (KeyError (name channel)))
           | Some d \<Rightarrow>
               (case list_index d 1 of
                  Inl e \<Rightarrow> (self, Inl e)
                | Inr d1 \<Rightarrow>
                    if d1 then
                      (case vec_index segment_angle 1 of
                         Inl e \<Rightarrow> (self, Inl e)
                       | Inr v \<Rightarrow> (set_local_data (name channel) v self, Inr ()))
                    else
                      (case list_index d 2 of
                         Inl e \<Rightarrow> (self, Inl e)
                       | Inr d2 \<Rightarrow>
                           if d2 then
                             (case vec_index segment_angle 2 of
                                Inl e \<Rightarrow> (self, Inl e)
                              | Inr v \<Rightarrow> (set_local_data (name channel) v self, Inr ()))
                           else (self, Inr ())))))"

fun default_action_loop :: "sensor \<Rightarrow> channel list \<Rightarrow> sensor \<times> unit result" where
  "default_action_loop self [] = (self, Inr ())"
| "default_action_loop self (channel # rest) =
     (case default_action_channel self channel of
        (self', Inl e) \<Rightarrow> (self', Inl e)
      | (self', Inr u) \<Rightarrow> default_action_loop self' rest)"

definition default_action :: "scene \<Rightarrow> component_dict \<Rightarrow> sensor \<Rightarrow> sensor \<times> unit result" where
  "default_action sc cd self =
     (case armature self of
        None \<Rightarrow> (self, Inr ())
      | Some a \<Rightarrow>
          (case armature_actuator self of
             Unset \<Rightarrow> (self, Inl (AttributeError ''_armature_actuator''))
           | _ \<Rightarrow>
               (let self' = bind_if_unbound sc cd self in
                case o_channels (sc a) of
                  None \<Rightarrow> (self', Inl (AttributeError ''channels''))
                | Some chs \<Rightarrow> default_action_loop self' chs)))"

subsection \<open>Ancestors\<close>

text \<open>
  The object reached from \<open>obj\<close> by \<open>k\<close> parent links, if the hierarchy is that deep.
  The parent chain of \<open>obj\<close> is finite (and so without a cycle) exactly when some
  \<open>nth_parent sc n obj\<close> is \<open>None\<close>. The walk of \<open>_get_armature\<close> ends at the
  first object of the chain that has channels or has no parent.
\<close>

fun nth_parent :: "scene \<Rightarrow> nat \<Rightarrow> nat \<Rightarrow> nat option" where
  "nth_parent sc 0 obj = Some obj"
| "nth_parent sc (Suc k) obj =
     (case o_parent (sc obj) of None \<Rightarrow> None | Some p \<Rightarrow> nth_parent sc k p)"

subsection \<open>A concrete scene\<close>

text \<open>
  A robot (object 2) carrying an arm (object 1, an armature of two joints) with the
  sensor's body (object 0) parented to the arm. Joint \<open>A\<close> is revolute about Y with
  rotation \<open>(0, 0.7, 0)\<close>; joint \<open>B\<close> is prismatic along Z with its head at
  \<open>(0, 0, 1.5)\<close> and no rotation. \<open>ex_actuator\<close> is an actuator for this arm:
  \<open>_get_joint\<close> finds the two joints by name, and \<open>find_dof\<close> and \<open>_dofs\<close> give
  the same masks. \<open>ex_sensor\<close> is the sensor the constructor builds on object 0, and
  \<open>detached_sensor\<close> the one it builds on the robot itself, which has no armature above.
\<close>

definition joint_A :: channel where
  "joint_A = \<lparr>name = ''A'', joint_rotation = (0, 7/10, 0), head_pose = (0, 0, 0),
              pose_head = (0, 0, 0), pose_tail = (0, 0, 1)\<rparr>"

definition joint_B :: channel where
  "joint_B = \<lparr>name = ''B'', joint_rotation = (0, 0, 0), head_pose = (0, 0, 3/2),
              pose_head = (0, 0, 3/2), pose_tail = (0, 0, 5/2)\<rparr>"

definition ex_scene :: scene where
  "ex_scene i =
     (if i = 0 then \<lparr>o_name = ''arm_pose'', o_parent = Some 1, o_channels = None\<rparr>
      else if i = 1 then
        \<lparr>o_name = ''arm'', o_parent = Some 2, o_channels = Some [joint_A, joint_B]\<rparr>
      else \<lparr>o_name = ''robot'', o_parent = None, o_channels = None\<rparr>)"

definition ex_actuator :: actuator where
  "ex_actuator =
     \<lparr>act_get_joint =
        (\<lambda>j. if j = ''A'' then Inr (joint_A, False)
             else if j = ''B'' then Inr (joint_B, True)
             else Inl (ActuatorError j)),
      find_dof = (\<lambda>c. if name c = ''A'' then [False, True, False] else [False, False, True]),
      dofs = [''A'' \<mapsto> [False, True, False], ''B'' \<mapsto> [False, False, True]]\<rparr>"

definition single_joint_actuator :: "channel \<Rightarrow> bool \<Rightarrow> bool list \<Rightarrow> actuator" where
  "single_joint_actuator ch pris dof =
     \<lparr>act_get_joint = (\<lambda>j. if j = name ch then Inr (ch, pris) else Inl (ActuatorError j)),
      find_dof = (\<lambda>c. dof),
      dofs = [name ch \<mapsto> dof]\<rparr>"

definition ex_registry :: component_dict where
  "ex_registry = [''arm'' \<mapsto> ex_actuator]"

definition ex_sensor :: sensor where
  "ex_sensor = \<lparr>blender_obj = 0, armature = Some 1, armature_actuator = PyNone,
                local_data = [(''A'', 0), (''B'', 0)]\<rparr>"

definition detached_sensor :: sensor where
  "detached_sensor = \<lparr>blender_obj = 2, armature = None, armature_actuator = Unset,
                      local_data = []\<rparr>"

text \<open>
  Single joints for the examples: a prismatic \<open>slider\<close> with its head at
  \<open>(1.0, 2.5, -3.0)\<close>, a revolute \<open>hinge\<close> rotated by \<open>(0, 0, 1.2)\<close>, and two
  actuators for joint \<open>A\<close> whose \<open>find_dof\<close> declares no axis and two axes.
\<close>

definition slider :: channel where
  "slider = \<lparr>name = ''slider'', joint_rotation = (0, 0, 0), head_pose = (1, 5/2, -3),
             pose_head = (1, 5/2, -3), pose_tail = (1, 5/2, -2)\<rparr>"

definition hinge :: channel where
  "hinge = \<lparr>name = ''hinge'', joint_rotation = (0, 0, 6/5), head_pose = (0, 0, 0),
            pose_head = (0, 0, 0), pose_tail = (0, 0, 3)\<rparr>"

definition no_axis_actuator :: actuator where
  "no_axis_actuator = single_joint_actuator joint_A False [False, False, False]"

definition two_axis_actuator :: actuator where
  "two_axis_actuator =
     single_joint_actuator (joint_A\<lparr>joint_rotation := (3/10, 7/10, 0)\<rparr>) False
       [True, True, False]"

text \<open>
  A hierarchy deeper than the recursion limit: objects 0 to 1200, each the child of the
  next, none of them an armature. The parent chain of every object is finite.
\<close>

definition deep_scene :: scene where
  "deep_scene i =
     \<lparr>o_name = ''link'', o_parent = (if i < 1200 then Some (Suc i) else None),
      o_channels = None\<rparr>"

section \<open>Chain resolution\<close>

lemma get_armature_here:
  "0 < depth \<Longrightarrow> o_channels (sc obj) \<noteq> None \<Longrightarrow> get_armature depth sc obj = Inr (Some obj)"
  by (cases depth) simp_all

lemma get_armature_top:
  "0 < depth \<Longrightarrow> o_channels (sc obj) = None \<Longrightarrow> o_parent (sc obj) = None \<Longrightarrow>
   get_armature depth sc obj = Inr None"
  by (cases depth) simp_all

lemma get_armature_up:
  "0 < depth \<Longrightarrow> o_channels (sc obj) = None \<Longrightarrow> o_parent (sc obj) = Some p \<Longrightarrow>
   get_armature depth sc obj = get_armature (depth - 1) sc p"
  by (cases depth) simp_all

text \<open>
  If the walk ends within the depth allowed, at the \<open>k\<close>-th object of the chain,
  \<open>_get_armature\<close> returns: the nearest object with channels, or \<open>None\<close> when the
  chain has no such object.
\<close>

lemma get_armature_returns:
  assumes "k < depth" and "nth_parent sc k obj = Some b"
    and "o_channels (sc b) \<noteq> None \<or> o_parent (sc b) = None"
  shows "\<exists>r. get_armature depth sc obj = Inr r \<and>
           (case r of
              Some a \<Rightarrow>
                (\<exists>k<depth. nth_parent sc k obj = Some a \<and> o_channels (sc a) \<noteq> None \<and>
                   (\<forall>j<k. \<forall>c. nth_parent sc j obj = Some c \<longrightarrow> o_channels (sc c) = None))
            | None \<Rightarrow> (\<forall>k c. nth_parent sc k obj = Some c \<longrightarrow> o_channels (sc c) = None))"
  using assms
proof (induction depth arbitrary: obj k)
  case 0
  then show ?case by simp
next
  case (Suc depth)
  show ?case
  proof (cases "o_channels (sc obj) = None")
    case False
    then have "get_armature (Suc depth) sc obj = Inr (Some obj)" by simp
    moreover have "nth_parent sc 0 obj = Some obj" by simp
    ultimately show ?thesis using False by force
  next
    case noch: True
    show ?thesis
    proof (cases "o_parent (sc obj)")
      case None
      have "get_armature (Suc depth) sc obj = Inr None" using noch None by simp
      moreover have "o_channels (sc c) = None" if "nth_parent sc j obj = Some c" for j c
        using that noch None by (cases j) auto
      ultimately show ?thesis by simp
    next
      case (Some p)
      have up: "get_armature (Suc depth) sc obj = get_armature depth sc p"
        using noch Some by simp
      have np: "nth_parent sc (Suc j) obj = nth_parent sc j p" for j using Some by simp
      obtain k' where k': "k = Suc k'"
        using Suc.prems noch Some by (cases k) auto
      have "k' < depth" and "nth_parent sc k' p = Some b"
        using Suc.prems k' np by simp_all
      from Suc.IH[OF this Suc.prems(3)] obtain r where r: "get_armature depth sc p = Inr r"
        and spec: "(case r of
              Some a \<Rightarrow>
                (\<exists>k<depth. nth_parent sc k p = Some a \<and> o_channels (sc a) \<noteq> None \<and>
                   (\<forall>j<k. \<forall>c. nth_parent sc j p = Some c \<longrightarrow> o_channels (sc c) = None))
            | None \<Rightarrow> (\<forall>k c. nth_parent sc k p = Some c \<longrightarrow> o_channels (sc c) = None))"
        by blast
      show ?thesis
      proof (cases r)
        case None
        have "o_channels (sc c) = None" if "nth_parent sc j obj = Some c" for j c
        proof (cases j)
          case 0 then show ?thesis using that noch by simp
        next
          case (Suc j') then show ?thesis using that spec None np by simp
        qed
        then show ?thesis using up r None by simp
      next
        case (Some a)
        then obtain i where i: "i < depth" "nth_parent sc i p = Some a" "o_channels (sc a) \<noteq> None"
          "\<forall>j<i. \<forall>c. nth_parent sc j p = Some c \<longrightarrow> o_channels (sc c) = None"
          using spec by auto
        have "o_channels (sc c) = None" if "j < Suc i" "nth_parent sc j obj = Some c" for j c
        proof (cases j)
          case 0 then show ?thesis using that noch by simp
        next
          case (Suc j') then show ?thesis using that i(4) np by simp
        qed
        moreover have "Suc i < Suc depth" "nth_parent sc (Suc i) obj = Some a"
          using i np by simp_all
        ultimately have "\<exists>k<Suc depth. nth_parent sc k obj = Some a \<and> o_channels (sc a) \<noteq> None \<and>
                   (\<forall>j<k. \<forall>c. nth_parent sc j obj = Some c \<longrightarrow> o_channels (sc c) = None)"
          using i(3) by blast
        then show ?thesis using up r Some by simp
      qed
    qed
  qed
qed

text \<open>
  If the first \<open>depth\<close> objects of the chain all lack channels and all have a parent,
  the recursion uses up the depth allowed and raises.
\<close>

lemma get_armature_overflow:
  assumes "\<forall>k<depth. \<exists>b. nth_parent sc k obj = Some b \<and> o_channels (sc b) = None \<and>
             o_parent (sc b) \<noteq> None"
  shows "get_armature depth sc obj = Inl RecursionError"
  using assms
proof (induction depth arbitrary: obj)
  case 0
  show ?case by simp
next
  case (Suc depth)
  from Suc.prems have "\<exists>b. nth_parent sc 0 obj = Some b \<and> o_channels (sc b) = None \<and>
             o_parent (sc b) \<noteq> None" by blast
  then obtain p where noch: "o_channels (sc obj) = None" and p: "o_parent (sc obj) = Some p"
    by auto
  have "\<forall>k<depth. \<exists>b. nth_parent sc k p = Some b \<and> o_channels (sc b) = None \<and>
             o_parent (sc b) \<noteq> None"
  proof (intro allI impI)
    fix k assume "k < depth"
    then have "Suc k < Suc depth" by simp
    with Suc.prems have "\<exists>b. nth_parent sc (Suc k) obj = Some b \<and> o_channels (sc b) = None \<and>
             o_parent (sc b) \<noteq> None" by blast
    then show "\<exists>b. nth_parent sc k p = Some b \<and> o_channels (sc b) = None \<and>
             o_parent (sc b) \<noteq> None" using p by simp
  qed
  from Suc.IH[OF this] show ?case using noch p by simp
qed

lemma nth_parent_deep_scene:
  "nth_parent deep_scene k i = (if k = 0 \<or> i + k \<le> 1200 then Some (i + k) else None)"
  by (induction k arbitrary: i) (auto simp: deep_scene_def)

lemma deep_scene_overflow:
  assumes "i + depth \<le> 1200"
  shows "get_armature depth deep_scene i = Inl RecursionError"
proof (rule get_armature_overflow, intro allI impI)
  fix k assume "k < depth"
  then have "i + k < 1200" using assms by simp
  then show "\<exists>b. nth_parent deep_scene k i = Some b \<and> o_channels (deep_scene b) = None \<and>
             o_parent (deep_scene b) \<noteq> None"
    by (simp add: nth_parent_deep_scene deep_scene_def)
qed

text \<open>
  Claim C8, as the code has it. \<open>_get_armature\<close> always ends. If the walk up the
  parent chain ends within the recursion depth allowed (some object among the first
  \<open>depth\<close> of the chain has channels or has no parent), it returns the nearest object
  on the chain, \<open>obj\<close> included, that has channels, or \<open>None\<close> when no object on the
  chain has any. If the walk would go deeper it raises \<open>RecursionError\<close>. The
  function reads the scene and returns a value; it has no state to change.
\<close>

theorem get_armature_nearest:
  "((\<exists>k<depth. \<exists>b. nth_parent sc k obj = Some b \<and>
        (o_channels (sc b) \<noteq> None \<or> o_parent (sc b) = None)) \<longrightarrow>
      (\<exists>r. get_armature depth sc obj = Inr r \<and>
         (case r of
            Some a \<Rightarrow>
              (\<exists>k<depth. nth_parent sc k obj = Some a \<and> o_channels (sc a) \<noteq> None \<and>
                 (\<forall>j<k. \<forall>c. nth_parent sc j obj = Some c \<longrightarrow> o_channels (sc c) = None))
          | None \<Rightarrow> (\<forall>k c. nth_parent sc k obj = Some c \<longrightarrow> o_channels (sc c) = None)))) \<and>
   ((\<forall>k<depth. \<exists>b. nth_parent sc k obj = Some b \<and> o_channels (sc b) = None \<and>
        o_parent (sc b) \<noteq> None) \<longrightarrow>
      get_armature depth sc obj = Inl RecursionError)"
  using get_armature_returns[of _ depth sc obj] get_armature_overflow[of depth sc obj]
  by blast

lemma ex_get_armature: "get_armature 1000 ex_scene 0 = Inr (Some 1)"
  by (simp add: get_armature_up[of _ ex_scene 0 1] get_armature_here ex_scene_def)

lemma ex_get_armature_top: "get_armature 1000 ex_scene 2 = Inr None"
  by (simp add: get_armature_top ex_scene_def)

theorem get_armature_nearest_witness:
  "nth_parent ex_scene 1 0 = Some 1 \<and> get_armature 1000 ex_scene 0 = Inr (Some 1) \<and>
   nth_parent ex_scene 2 2 = None \<and> get_armature 1000 ex_scene 2 = Inr None \<and>
   get_armature 1000 deep_scene 100 = Inl RecursionError"
proof -
  have n1: "nth_parent ex_scene 1 0 = Some 1" by (simp add: ex_scene_def)
  have n2: "nth_parent ex_scene 2 2 = None" by (simp add: numeral_2_eq_2 ex_scene_def)
  have d: "\<forall>k<1000. \<exists>b. nth_parent deep_scene k 100 = Some b \<and>
             o_channels (deep_scene b) = None \<and> o_parent (deep_scene b) \<noteq> None"
    by (simp add: nth_parent_deep_scene deep_scene_def)
  have e: "\<exists>k<1000. \<exists>b. nth_parent ex_scene k 0 = Some b \<and>
             (o_channels (ex_scene b) \<noteq> None \<or> o_parent (ex_scene b) = None)"
    by (rule exI[of _ 1]) (simp add: ex_scene_def)
  from get_armature_nearest [of 1000 ex_scene 0] e
  obtain r where r: "get_armature 1000 ex_scene 0 = Inr r" by blast
  then have found: "get_armature 1000 ex_scene 0 = Inr (Some 1)" using ex_get_armature by simp
  from get_armature_nearest [of 1000 deep_scene 100] d
  have "get_armature 1000 deep_scene 100 = Inl RecursionError" by blast
  with n1 n2 found ex_get_armature_top show ?thesis by (intro conjI)
qed

text \<open>
  Against claim C8 as stated: the parent chain of object 0 of the deep hierarchy is
  finite (it has no 1201st parent), and \<open>_get_armature\<close> raises on it even when the
  whole default recursion limit of 1000 calls is at its disposal.
\<close>

theorem get_armature_deep_counterexample:
  "nth_parent deep_scene 1201 0 = None \<and> get_armature 1000 deep_scene 0 = Inl RecursionError"
  by (simp add: nth_parent_deep_scene deep_scene_overflow)

lemma ex_init: "init 1000 ex_scene 0 = Inr ex_sensor"
  by (simp add: init_def Sensor_init_def ex_get_armature ex_sensor_def set_local_data_def
      joint_A_def joint_B_def ex_scene_def)

lemma ex_init_detached: "init 1000 ex_scene 2 = Inr detached_sensor"
  by (simp add: init_def Sensor_init_def ex_get_armature_top detached_sensor_def)

section \<open>The queries leave the published mapping alone\<close>

lemma bind_if_unbound_local_data:
  "local_data (bind_if_unbound sc cd s) = local_data s"
  by (simp add: bind_if_unbound_def get_armature_actuator_def
      split: actuator_ref.splits option.splits)

lemma get_joint_local_data: "local_data (fst (get_joint sc cd s j)) = local_data s"
  by (simp add: get_joint_def Let_def bind_if_unbound_local_data split: actuator_ref.splits)

lemma get_state_loop_local_data:
  "local_data (fst (get_state_loop sc cd s chs acc)) = local_data s"
proof (induction chs arbitrary: s acc)
  case Nil
  show ?case by simp
next
  case (Cons c chs)
  obtain s' r where g: "get_joint sc cd s (name c) = (s', r)" by (cases "get_joint sc cd s (name c)")
  have "local_data s' = local_data s" using get_joint_local_data[of sc cd s "name c"] g by simp
  then show ?case using g Cons.IH[of s'] by (cases r) simp_all
qed

text \<open>
  Claim C9. None of the four services \<open>get_joints\<close>, \<open>get_state\<close>, \<open>get_joint\<close>
  and \<open>get_joints_length\<close> changes \<open>local_data\<close>, whether it returns or raises.
\<close>

theorem queries_keep_local_data:
  "local_data (fst (get_joints sc s)) = local_data s \<and>
   local_data (fst (get_state sc cd s)) = local_data s \<and>
   local_data (fst (get_joint sc cd s j)) = local_data s \<and>
   local_data (fst (get_joints_length sc s)) = local_data s"
  by (simp add: get_joints_def get_joints_length_def get_state_def get_joint_local_data
      get_state_loop_local_data split: sum.splits)

theorem queries_keep_local_data_witness:
  "local_data (fst (get_state ex_scene ex_registry ex_sensor)) = [(''A'', 0), (''B'', 0)] \<and>
   local_data (fst (get_joint ex_scene ex_registry ex_sensor ''A'')) = [(''A'', 0), (''B'', 0)]"
  using queries_keep_local_data [of ex_scene ex_sensor ex_registry "''A''"]
  by (simp add: ex_sensor_def)

section \<open>The full state\<close>

text \<open>
  \<open>get_joint\<close> may bind the actuator, which is the only change it makes to the
  sensor; the value of a later \<open>get_joint\<close> is the same with or without it.
\<close>

lemma get_joint_stable:
  "snd (get_joint sc cd (fst (get_joint sc cd s j')) j) = snd (get_joint sc cd s j)"
  by (simp add: get_joint_def Let_def bind_if_unbound_def get_armature_actuator_def
      split: actuator_ref.splits option.splits)


lemma get_state_loop_returns:
  "snd (get_state_loop sc cd s chs acc) = Inr m \<Longrightarrow>
   (\<forall>c\<in>set chs. snd (get_joint sc cd s (name c)) = Inr (the (map_of m (name c)))) \<and>
   fst ` set m = fst ` set acc \<union> name ` set chs \<and>
   (\<forall>key. key \<notin> name ` set chs \<longrightarrow> map_of m key = map_of acc key)"
proof (induction chs arbitrary: s acc)
  case Nil
  then show ?case by simp
next
  case (Cons c chs)
  obtain s' r where g: "get_joint sc cd s (name c) = (s', r)" by (cases "get_joint sc cd s (name c)")
  have st: "snd (get_joint sc cd s' j) = snd (get_joint sc cd s j)" for j
    using get_joint_stable[of sc cd s "name c" j] g by simp
  from Cons.prems g obtain v where v: "r = Inr v" by (cases r) simp_all
  let ?acc = "AList.update (name c) v acc"
  from Cons.prems g v have "snd (get_state_loop sc cd s' chs ?acc) = Inr m" by simp
  from Cons.IH[OF this] have
    ih1: "\<forall>c\<in>set chs. snd (get_joint sc cd s' (name c)) = Inr (the (map_of m (name c)))" and
    ih2: "fst ` set m = fst ` set ?acc \<union> name ` set chs" and
    ih3: "\<forall>key. key \<notin> name ` set chs \<longrightarrow> map_of m key = map_of ?acc key" by blast+
  have head: "snd (get_joint sc cd s (name c)) = Inr (the (map_of m (name c)))"
  proof (cases "name c \<in> name ` set chs")
    case True
    then obtain c' where c': "c' \<in> set chs" "name c' = name c" by auto
    with ih1 have "snd (get_joint sc cd s' (name c)) = Inr (the (map_of m (name c)))" by metis
    then show ?thesis using st by simp
  next
    case False
    with ih3 have "map_of m (name c) = map_of ?acc (name c)" by blast
    then show ?thesis using g v by (simp add: update_conv')
  qed
  have dom: "fst ` set ?acc = insert (name c) (fst ` set acc)"
    using dom_update[of "name c" v acc] by simp
  show ?case
  proof (intro conjI ballI allI impI)
    fix x assume "x \<in> set (c # chs)"
    then show "snd (get_joint sc cd s (name x)) = Inr (the (map_of m (name x)))"
      using head ih1 st by auto
  next
    show "fst ` set m = fst ` set acc \<union> name ` set (c # chs)" using ih2 dom by auto
  next
    fix key assume "key \<notin> name ` set (c # chs)"
    then show "map_of m key = map_of acc key" using ih3 by (simp add: update_conv')
  qed
qed




section \<open>The value of one joint\<close>

lemma find_first_true:
  "i < length m \<Longrightarrow> m ! i \<Longrightarrow> \<forall>k<i. \<not> m ! k \<Longrightarrow>
   List.find snd (enumerate n m) = Some (n + i, True)"
proof (induction m arbitrary: i n)
  case Nil
  then show ?case by simp
next
  case (Cons b m)
  show ?case
  proof (cases i)
    case 0
    then show ?thesis using Cons.prems by simp
  next
    case (Suc i')
    have nb: "\<not> b" using Cons.prems(3) Suc by auto
    have "List.find snd (enumerate (Suc n) m) = Some (Suc n + i', True)"
    proof (rule Cons.IH)
      show "i' < length m" using Cons.prems(1) Suc by simp
      show "m ! i'" using Cons.prems(2) Suc by simp
      show "\<forall>k<i'. \<not> m ! k" using Cons.prems(3) Suc by auto
    qed
    then show ?thesis using nb Suc by simp
  qed
qed

lemma find_no_true:
  "\<forall>k<length m. \<not> m ! k \<Longrightarrow> List.find snd (enumerate n m) = None"
  by (auto simp: find_None_iff in_set_enumerate_eq)

lemma get_joint_bound:
  "armature_actuator s = Bound act \<Longrightarrow> get_joint sc cd s j = (s, resolve_joint act j)"
  by (simp add: get_joint_def bind_if_unbound_def Let_def)

lemma resolve_joint_first_true:
  assumes "act_get_joint act j = Inr (ch, pris)"
    and "i < length (find_dof act ch)" "find_dof act ch ! i" "\<forall>k<i. \<not> find_dof act ch ! k"
  shows "resolve_joint act j = vec_index (if pris then head_pose ch else joint_rotation ch) i"
  using assms(1) find_first_true[OF assms(2-4), of 0] by (simp add: resolve_joint_def)

lemma resolve_joint_no_true:
  assumes "act_get_joint act j = Inr (ch, pris)"
    and "\<forall>k<length (find_dof act ch). \<not> find_dof act ch ! k"
  shows "resolve_joint act j = Inl StopIteration"
  using assms(1) find_no_true[OF assms(2), of 0] by (simp add: resolve_joint_def)

lemma vec_index_in_range: "i < 3 \<Longrightarrow> \<exists>v. vec_index w i = Inr v"
  by (cases w) (auto simp: vec_index_def)

lemma vec_index_nth:
  "i < 3 \<Longrightarrow> vec_index w i = Inr (case w of (x, y, z) \<Rightarrow> [x, y, z] ! i)"
  by (cases w) (auto simp: vec_index_def less_Suc_eq numeral_3_eq_3)

text \<open>
  Claim C6. On a sensor bound to its actuator, for a joint whose 3-element mask is true
  at index \<open>i\<close> and nowhere else, \<open>get_joint\<close> returns component \<open>i\<close> of the head
  position \<open>head_pose\<close> when the joint is prismatic and component \<open>i\<close> of the joint
  rotation when it is revolute, as it stands; the sensor is left as it was.
\<close>

theorem get_joint_active_axis:
  assumes "armature_actuator s = Bound act"
    and "act_get_joint act j = Inr (ch, pris)"
    and "length (find_dof act ch) = 3"
    and "i < 3" and "find_dof act ch ! i"
    and "\<forall>k<3. k \<noteq> i \<longrightarrow> \<not> find_dof act ch ! k"
  shows "get_joint sc cd s j =
           (s, Inr (case (if pris then head_pose ch else joint_rotation ch) of
                      (x, y, z) \<Rightarrow> [x, y, z] ! i))"
proof -
  have "resolve_joint act j = vec_index (if pris then head_pose ch else joint_rotation ch) i"
    using assms by (intro resolve_joint_first_true) auto
  then show ?thesis
    using get_joint_bound[OF assms(1)] vec_index_nth[OF assms(4)] by simp
qed

lemma only_index_1: "\<forall>k<3. k \<noteq> 1 \<longrightarrow> \<not> [False, True, False] ! k"
  by (auto simp: less_Suc_eq numeral_3_eq_3)

lemma only_index_2: "\<forall>k<3. k \<noteq> 2 \<longrightarrow> \<not> [False, False, True] ! k"
  by (auto simp: less_Suc_eq numeral_3_eq_3)

theorem get_joint_active_axis_witness:
  "get_joint ex_scene ex_registry
     (ex_sensor\<lparr>armature_actuator := Bound (single_joint_actuator slider True [False, True, False])\<rparr>)
     ''slider'' =
     (ex_sensor\<lparr>armature_actuator := Bound (single_joint_actuator slider True [False, True, False])\<rparr>,
      Inr (5/2)) \<and>
   get_joint ex_scene ex_registry
     (ex_sensor\<lparr>armature_actuator := Bound (single_joint_actuator hinge False [False, False, True])\<rparr>)
     ''hinge'' =
     (ex_sensor\<lparr>armature_actuator := Bound (single_joint_actuator hinge False [False, False, True])\<rparr>,
      Inr (6/5))"
proof -
  let ?a1 = "single_joint_actuator slider True [False, True, False]"
  let ?a2 = "single_joint_actuator hinge False [False, False, True]"
  have s1: "armature_actuator (ex_sensor\<lparr>armature_actuator := Bound ?a1\<rparr>) = Bound ?a1" by simp
  have g1: "act_get_joint ?a1 ''slider'' = Inr (slider, True)"
    by (simp add: single_joint_actuator_def slider_def)
  have l1: "length (find_dof ?a1 slider) = 3" by (simp add: single_joint_actuator_def)
  have t1: "find_dof ?a1 slider ! 1" by (simp add: single_joint_actuator_def)
  have o1: "\<forall>k<3. k \<noteq> 1 \<longrightarrow> \<not> find_dof ?a1 slider ! k"
    using only_index_1 by (simp add: single_joint_actuator_def)
  have s2: "armature_actuator (ex_sensor\<lparr>armature_actuator := Bound ?a2\<rparr>) = Bound ?a2" by simp
  have g2: "act_get_joint ?a2 ''hinge'' = Inr (hinge, False)"
    by (simp add: single_joint_actuator_def hinge_def)
  have l2: "length (find_dof ?a2 hinge) = 3" by (simp add: single_joint_actuator_def)
  have t2: "find_dof ?a2 hinge ! 2" by (simp add: single_joint_actuator_def)
  have o2: "\<forall>k<3. k \<noteq> 2 \<longrightarrow> \<not> find_dof ?a2 hinge ! k"
    using only_index_2 by (simp add: single_joint_actuator_def)
  have i1: "(1::nat) < 3" and i2: "(2::nat) < 3" by simp_all
  show ?thesis
    using get_joint_active_axis [OF s1 g1 l1 i1 t1 o1, of ex_scene ex_registry]
      get_joint_active_axis [OF s2 g2 l2 i2 t2 o2, of ex_scene ex_registry]
    by (simp add: slider_def hinge_def)
qed

text \<open>
  Claim C3, as the code has it. With a 3-element mask that has no true entry
  \<open>get_joint\<close> raises \<open>StopIteration\<close>, the exception of \<open>next\<close> on an exhausted
  generator. With a mask that has two or more true entries it raises nothing: it
  returns the component at the first true index.
\<close>

theorem get_joint_malformed_mask:
  assumes "armature_actuator s = Bound act"
    and "act_get_joint act j = Inr (ch, pris)"
    and "length (find_dof act ch) = 3"
  shows "((\<forall>k<3. \<not> find_dof act ch ! k) \<longrightarrow> get_joint sc cd s j = (s, Inl StopIteration)) \<and>
         (\<forall>i i'. i < i' \<and> i' < 3 \<and> find_dof act ch ! i \<and> find_dof act ch ! i' \<and>
                 (\<forall>k<i. \<not> find_dof act ch ! k) \<longrightarrow>
            get_joint sc cd s j =
              (s, vec_index (if pris then head_pose ch else joint_rotation ch) i) \<and>
            (\<exists>v. vec_index (if pris then head_pose ch else joint_rotation ch) i = Inr v))"
proof (intro conjI allI impI)
  assume "\<forall>k<3. \<not> find_dof act ch ! k"
  then have "resolve_joint act j = Inl StopIteration"
    using assms by (intro resolve_joint_no_true) auto
  then show "get_joint sc cd s j = (s, Inl StopIteration)"
    using get_joint_bound[OF assms(1)] by simp
next
  fix i i'
  assume a: "i < i' \<and> i' < 3 \<and> find_dof act ch ! i \<and> find_dof act ch ! i' \<and>
                 (\<forall>k<i. \<not> find_dof act ch ! k)"
  then have i3: "i < 3" by simp
  have "resolve_joint act j = vec_index (if pris then head_pose ch else joint_rotation ch) i"
    using assms a i3 by (intro resolve_joint_first_true) auto
  then show "get_joint sc cd s j =
      (s, vec_index (if pris then head_pose ch else joint_rotation ch) i)"
    using get_joint_bound[OF assms(1)] by simp
  show "\<exists>v. vec_index (if pris then head_pose ch else joint_rotation ch) i = Inr v"
    using vec_index_in_range[OF i3] by blast
qed

theorem get_joint_malformed_mask_witness:
  "get_joint ex_scene ex_registry (ex_sensor\<lparr>armature_actuator := Bound no_axis_actuator\<rparr>) ''A'' =
     (ex_sensor\<lparr>armature_actuator := Bound no_axis_actuator\<rparr>, Inl StopIteration) \<and>
   get_joint ex_scene ex_registry (ex_sensor\<lparr>armature_actuator := Bound two_axis_actuator\<rparr>) ''A'' =
     (ex_sensor\<lparr>armature_actuator := Bound two_axis_actuator\<rparr>, Inr (3/10))"
proof -
  let ?c = "joint_A\<lparr>joint_rotation := (3/10, 7/10, 0)\<rparr>"
  have s0: "armature_actuator (ex_sensor\<lparr>armature_actuator := Bound no_axis_actuator\<rparr>) =
              Bound no_axis_actuator" by simp
  have g0: "act_get_joint no_axis_actuator ''A'' = Inr (joint_A, False)"
    by (simp add: no_axis_actuator_def single_joint_actuator_def joint_A_def)
  have l0: "length (find_dof no_axis_actuator joint_A) = 3"
    by (simp add: no_axis_actuator_def single_joint_actuator_def)
  have z0: "\<forall>k<3. \<not> find_dof no_axis_actuator joint_A ! k"
    by (auto simp: no_axis_actuator_def single_joint_actuator_def less_Suc_eq numeral_3_eq_3)
  have s2: "armature_actuator (ex_sensor\<lparr>armature_actuator := Bound two_axis_actuator\<rparr>) =
              Bound two_axis_actuator" by simp
  have g2: "act_get_joint two_axis_actuator ''A'' = Inr (?c, False)"
    by (simp add: two_axis_actuator_def single_joint_actuator_def joint_A_def)
  have l2: "length (find_dof two_axis_actuator ?c) = 3"
    by (simp add: two_axis_actuator_def single_joint_actuator_def)
  have f2: "find_dof two_axis_actuator ?c = [True, True, False]"
    by (simp add: two_axis_actuator_def single_joint_actuator_def)
  from get_joint_malformed_mask [OF s0 g0 l0, of ex_scene ex_registry] z0
  have a: "get_joint ex_scene ex_registry (ex_sensor\<lparr>armature_actuator := Bound no_axis_actuator\<rparr>) ''A'' =
     (ex_sensor\<lparr>armature_actuator := Bound no_axis_actuator\<rparr>, Inl StopIteration)" by blast
  have p: "(0::nat) < 1 \<and> (1::nat) < 3 \<and> find_dof two_axis_actuator ?c ! 0 \<and>
          find_dof two_axis_actuator ?c ! 1 \<and> (\<forall>k<0. \<not> find_dof two_axis_actuator ?c ! k)"
    by (simp add: f2)
  from get_joint_malformed_mask [OF s2 g2 l2, of ex_scene ex_registry]
  have "(0::nat) < 1 \<and> (1::nat) < 3 \<and> find_dof two_axis_actuator ?c ! 0 \<and>
          find_dof two_axis_actuator ?c ! 1 \<and> (\<forall>k<0. \<not> find_dof two_axis_actuator ?c ! k) \<longrightarrow>
        get_joint ex_scene ex_registry (ex_sensor\<lparr>armature_actuator := Bound two_axis_actuator\<rparr>) ''A'' =
          (ex_sensor\<lparr>armature_actuator := Bound two_axis_actuator\<rparr>,
           vec_index (if False then head_pose ?c else joint_rotation ?c) 0)"
    by blast
  from this p
  have "get_joint ex_scene ex_registry (ex_sensor\<lparr>armature_actuator := Bound two_axis_actuator\<rparr>) ''A'' =
          (ex_sensor\<lparr>armature_actuator := Bound two_axis_actuator\<rparr>,
           vec_index (if False then head_pose ?c else joint_rotation ?c) 0)"
    by (rule mp)
  then have b: "get_joint ex_scene ex_registry (ex_sensor\<lparr>armature_actuator := Bound two_axis_actuator\<rparr>) ''A'' =
     (ex_sensor\<lparr>armature_actuator := Bound two_axis_actuator\<rparr>, Inr (3/10))"
    by (simp add: vec_index_def joint_A_def)
  from a b show ?thesis by simp
qed

text \<open>
  Against claim C3 as stated: joint \<open>A\<close> with mask \<open>[True, True, False]\<close> and rotation
  \<open>(0.3, 0.7, 0)\<close> gets the value 0.3 and no error.
\<close>

theorem get_joint_two_axes_counterexample:
  "find_dof two_axis_actuator (joint_A\<lparr>joint_rotation := (3/10, 7/10, 0)\<rparr>) = [True, True, False] \<and>
   snd (get_joint ex_scene [''arm'' \<mapsto> two_axis_actuator] ex_sensor ''A'') = Inr (3/10)"
  by (simp add: get_joint_def ex_sensor_def bind_if_unbound_def get_armature_actuator_def
      ex_scene_def two_axis_actuator_def single_joint_actuator_def joint_A_def resolve_joint_def
      vec_index_def Let_def)

section \<open>Late binding of the actuator\<close>

lemma get_state_loop_succeeds:
  "\<forall>c\<in>set chs. \<exists>v. snd (get_joint sc cd s (name c)) = Inr v \<Longrightarrow>
   \<exists>m. snd (get_state_loop sc cd s chs acc) = Inr m"
proof (induction chs arbitrary: s acc)
  case Nil
  show ?case by simp
next
  case (Cons c chs)
  obtain s' r where g: "get_joint sc cd s (name c) = (s', r)" by (cases "get_joint sc cd s (name c)")
  have st: "snd (get_joint sc cd s' j) = snd (get_joint sc cd s j)" for j
    using get_joint_stable[of sc cd s "name c" j] g by simp
  from Cons.prems g obtain v where v: "r = Inr v" by auto
  have "\<forall>c\<in>set chs. \<exists>v. snd (get_joint sc cd s' (name c)) = Inr v"
    using Cons.prems st by simp
  from Cons.IH[OF this, of "AList.update (name c) v acc"] show ?case using g v by simp
qed

lemma get_joint_binds:
  assumes "armature s = Some a" and "armature_actuator s = PyNone"
    and "cd (o_name (sc a)) = Some act"
  shows "get_joint sc cd s j = (s\<lparr>armature_actuator := Bound act\<rparr>, resolve_joint act j)"
  using assms
  by (simp add: get_joint_def bind_if_unbound_def get_armature_actuator_def Let_def)

lemma get_joint_stays_unbound:
  assumes "armature s = Some a" and "armature_actuator s = PyNone"
    and "cd (o_name (sc a)) = None"
  shows "get_joint sc cd s j = (s, Inl (AttributeError ''_get_joint''))"
  using assms
  by (simp add: get_joint_def bind_if_unbound_def get_armature_actuator_def Let_def)

text \<open>
  Claim C4, as the code has it. While no actuator is registered under the armature's
  name, \<open>get_joint\<close> on an unbound sensor raises \<open>AttributeError\<close> (the call of
  \<open>_get_joint\<close> on \<open>None\<close>) and leaves the sensor unbound, so every such call looks
  the registry up again; \<open>get_state\<close> on an armature with a channel raises the same.
  Once an actuator is registered, the next \<open>get_joint\<close> binds it and resolves the
  joint through it, and the next \<open>get_state\<close> returns the dictionary of all channels
  when the actuator resolves each of them; the sensor is not constructed anew.
\<close>

theorem get_joint_late_binding:
  assumes "armature s = Some a" and "armature_actuator s = PyNone"
    and "cd (o_name (sc a)) = None" and "cd' (o_name (sc a)) = Some act"
  shows "get_joint sc cd s j = (s, Inl (AttributeError ''_get_joint'')) \<and>
         get_joint sc cd' (fst (get_joint sc cd s j)) j =
           (s\<lparr>armature_actuator := Bound act\<rparr>, resolve_joint act j) \<and>
         (\<forall>chs. o_channels (sc a) = Some chs \<and> chs \<noteq> [] \<longrightarrow>
            snd (get_state sc cd s) = Inl (AttributeError ''_get_joint'')) \<and>
         (\<forall>chs. o_channels (sc a) = Some chs \<and>
                (\<forall>c\<in>set chs. \<exists>v. resolve_joint act (name c) = Inr v) \<longrightarrow>
            (\<exists>m. snd (get_state sc cd' (fst (get_joint sc cd s j))) = Inr m \<and>
                 fst ` set m = name ` set chs \<and>
                 (\<forall>c\<in>set chs. \<exists>v. map_of m (name c) = Some v \<and>
                     resolve_joint act (name c) = Inr v)))"
proof (intro conjI allI impI)
  show unbound: "get_joint sc cd s j = (s, Inl (AttributeError ''_get_joint''))"
    using get_joint_stays_unbound[of s a cd sc j, OF assms(1-3)] .
  show "get_joint sc cd' (fst (get_joint sc cd s j)) j =
          (s\<lparr>armature_actuator := Bound act\<rparr>, resolve_joint act j)"
    using unbound get_joint_binds[of s a cd' sc act j, OF assms(1,2,4)] by simp
next
  fix chs assume "o_channels (sc a) = Some chs \<and> chs \<noteq> []"
  then obtain c rest where chs: "o_channels (sc a) = Some (c # rest)" by (cases chs) auto
  have "get_joint sc cd s (name c) = (s, Inl (AttributeError ''_get_joint''))"
    using get_joint_stays_unbound[of s a cd sc "name c", OF assms(1-3)] .
  then show "snd (get_state sc cd s) = Inl (AttributeError ''_get_joint'')"
    using chs assms(1) by (simp add: get_state_def armature_channels_def)
next
  fix chs
  assume h: "o_channels (sc a) = Some chs \<and>
             (\<forall>c\<in>set chs. \<exists>v. resolve_joint act (name c) = Inr v)"
  have same: "fst (get_joint sc cd s j) = s"
    using get_joint_stays_unbound[of s a cd sc j, OF assms(1-3)] by simp
  have val: "snd (get_joint sc cd' s i) = resolve_joint act i" for i
    using get_joint_binds[of s a cd' sc act i, OF assms(1,2,4)] by simp
  have loop: "get_state sc cd' s = get_state_loop sc cd' s chs []"
    using h assms(1) by (simp add: get_state_def armature_channels_def)
  have "\<forall>c\<in>set chs. \<exists>v. snd (get_joint sc cd' s (name c)) = Inr v"
    using h val by simp
  from get_state_loop_succeeds[OF this, of "[]"]
  obtain m where m: "snd (get_state_loop sc cd' s chs []) = Inr m" by blast
  note r = get_state_loop_returns[OF m]
  have keys: "fst ` set m = name ` set chs" using r by simp
  have "\<exists>v. map_of m (name c) = Some v \<and> resolve_joint act (name c) = Inr v"
    if c: "c \<in> set chs" for c
  proof -
    have "name c \<in> fst ` set m" using keys c by auto
    then obtain v where v: "map_of m (name c) = Some v"
      by (metis domIff dom_map_of_conv_image_fst not_Some_eq)
    have "snd (get_joint sc cd' s (name c)) = Inr (the (map_of m (name c)))" using r c by blast
    then show ?thesis using v val by simp
  qed
  then show "\<exists>m. snd (get_state sc cd' (fst (get_joint sc cd s j))) = Inr m \<and>
                 fst ` set m = name ` set chs \<and>
                 (\<forall>c\<in>set chs. \<exists>v. map_of m (name c) = Some v \<and>
                     resolve_joint act (name c) = Inr v)"
    using same loop m keys by auto
qed

theorem get_joint_late_binding_witness:
  "get_joint ex_scene Map.empty ex_sensor ''B'' = (ex_sensor, Inl (AttributeError ''_get_joint'')) \<and>
   get_joint ex_scene ex_registry (fst (get_joint ex_scene Map.empty ex_sensor ''B'')) ''B'' =
     (ex_sensor\<lparr>armature_actuator := Bound ex_actuator\<rparr>, Inr (3/2)) \<and>
   snd (get_state ex_scene Map.empty ex_sensor) = Inl (AttributeError ''_get_joint'') \<and>
   (\<exists>m. snd (get_state ex_scene ex_registry (fst (get_joint ex_scene Map.empty ex_sensor ''B''))) =
          Inr m \<and> map_of m ''A'' = Some (7/10) \<and> map_of m ''B'' = Some (3/2))"
proof -
  have a: "armature ex_sensor = Some 1" and u: "armature_actuator ex_sensor = PyNone"
    by (simp_all add: ex_sensor_def)
  have n: "Map.empty (o_name (ex_scene 1)) = (None :: actuator option)" by simp
  have r: "ex_registry (o_name (ex_scene 1)) = Some ex_actuator"
    by (simp add: ex_registry_def ex_scene_def)
  have c: "o_channels (ex_scene 1) = Some [joint_A, joint_B]" by (simp add: ex_scene_def)
  have vA: "resolve_joint ex_actuator ''A'' = Inr (7/10)"
    by (simp add: resolve_joint_def ex_actuator_def joint_A_def vec_index_def)
  have vB: "resolve_joint ex_actuator ''B'' = Inr (3/2)"
    by (simp add: resolve_joint_def ex_actuator_def joint_B_def vec_index_def)
  have nA: "name joint_A = ''A''" and nB: "name joint_B = ''B''"
    by (simp_all add: joint_A_def joint_B_def)
  note t = get_joint_late_binding
    [of ex_sensor 1 Map.empty ex_scene ex_registry ex_actuator "''B''", OF a u n r]
  from t have t1: "get_joint ex_scene Map.empty ex_sensor ''B'' =
                     (ex_sensor, Inl (AttributeError ''_get_joint''))" by blast
  from t have t2: "get_joint ex_scene ex_registry
                     (fst (get_joint ex_scene Map.empty ex_sensor ''B'')) ''B'' =
                     (ex_sensor\<lparr>armature_actuator := Bound ex_actuator\<rparr>, Inr (3/2))"
    unfolding vB by blast
  from t c have t3: "snd (get_state ex_scene Map.empty ex_sensor) =
                       Inl (AttributeError ''_get_joint'')" by blast
  have eA: "\<exists>v. resolve_joint ex_actuator (name joint_A) = Inr v"
    unfolding nA using vA by (rule exI)
  have eB: "\<exists>v. resolve_joint ex_actuator (name joint_B) = Inr v"
    unfolding nB using vB by (rule exI)
  have all: "\<forall>c\<in>set [joint_A, joint_B]. \<exists>v. resolve_joint ex_actuator (name c) = Inr v"
    using eA eB by simp
  from t c all obtain m where
    m: "snd (get_state ex_scene ex_registry (fst (get_joint ex_scene Map.empty ex_sensor ''B''))) =
          Inr m"
    and vals: "\<forall>c\<in>set [joint_A, joint_B]. \<exists>v. map_of m (name c) = Some v \<and>
                 resolve_joint ex_actuator (name c) = Inr v"
    by blast
  from vals obtain x where x: "map_of m (name joint_A) = Some x"
    "resolve_joint ex_actuator (name joint_A) = Inr x" by auto
  from vals obtain y where y: "map_of m (name joint_B) = Some y"
    "resolve_joint ex_actuator (name joint_B) = Inr y" by auto
  have "x = 7/10" using x(2) vA unfolding nA by simp
  moreover have "y = 3/2" using y(2) vB unfolding nB by simp
  ultimately have "map_of m ''A'' = Some (7/10)" "map_of m ''B'' = Some (3/2)"
    using x(1) y(1) unfolding nA nB by simp_all
  with m t1 t2 t3 show ?thesis by blast
qed

text \<open>
  Against claim C4 as stated: the exception of the unbound sensor is Python's
  \<open>AttributeError\<close> for \<open>None._get_joint\<close>, not an error of the sensor's own.
\<close>

theorem get_joint_unbound_counterexample:
  "get_joint ex_scene Map.empty ex_sensor ''A'' = (ex_sensor, Inl (AttributeError ''_get_joint''))"
  by (simp add: get_joint_def ex_sensor_def bind_if_unbound_def get_armature_actuator_def
      Let_def)

section \<open>A sensor without armature\<close>

text \<open>
  Claim C10. When \<open>_get_armature\<close> finds nothing, the constructor returns before the
  loop over the channels: \<open>local_data\<close> is as the base constructor made it, empty, and
  \<open>_armature_actuator\<close> is never assigned.
\<close>

theorem init_without_armature:
  assumes "get_armature depth sc obj = Inr None"
  shows "\<exists>s. init depth sc obj = Inr s \<and> armature s = None \<and> armature_actuator s = Unset \<and>
             local_data s = local_data (Sensor_init obj) \<and> local_data s = []"
  using assms by (simp add: init_def Sensor_init_def)

theorem init_without_armature_witness:
  "get_armature 1000 ex_scene 2 = Inr None \<and> init 1000 ex_scene 2 = Inr detached_sensor \<and>
   local_data detached_sensor = []"
  using init_without_armature [OF ex_get_armature_top]
  by (simp add: ex_get_armature_top ex_init_detached detached_sensor_def)

text \<open>
  Claim C5, as the code has it. A sensor constructed without armature keeps
  \<open>armature = None\<close>, and each of the four services raises \<open>AttributeError\<close> on it:
  \<open>get_joints\<close>, \<open>get_state\<close> and \<open>get_joints_length\<close> for \<open>None.channels\<close>,
  \<open>get_joint\<close> for the attribute \<open>_armature_actuator\<close> that was never assigned. The
  sensor comes back unchanged, so this holds for every later call too.
\<close>

theorem detached_sensor_fails:
  assumes "get_armature depth sc obj = Inr None"
  shows "\<exists>s. init depth sc obj = Inr s \<and> armature s = None \<and>
           (\<forall>sc' cd j.
              get_joints sc' s = (s, Inl (AttributeError ''channels'')) \<and>
              get_state sc' cd s = (s, Inl (AttributeError ''channels'')) \<and>
              get_joint sc' cd s j = (s, Inl (AttributeError ''_armature_actuator'')) \<and>
              get_joints_length sc' s = (s, Inl (AttributeError ''channels'')))"
  using assms
  by (simp add: init_def Sensor_init_def get_joints_def get_state_def get_joint_def
      get_joints_length_def armature_channels_def)

theorem detached_sensor_fails_witness:
  "get_armature 1000 ex_scene 2 = Inr None \<and>
   get_state ex_scene ex_registry detached_sensor =
     (detached_sensor, Inl (AttributeError ''channels'')) \<and>
   get_joints_length ex_scene detached_sensor =
     (detached_sensor, Inl (AttributeError ''channels''))"
  using detached_sensor_fails [OF ex_get_armature_top]
  by (simp add: ex_get_armature_top ex_init_detached)

text \<open>
  Against claim C5 as stated: on the sensor built on the robot of the concrete scene the
  services fail with Python's \<open>AttributeError\<close>, not with an error that says the
  sensor is not attached.
\<close>

theorem detached_sensor_counterexample:
  "init 1000 ex_scene 2 = Inr detached_sensor \<and>
   get_joints ex_scene detached_sensor = (detached_sensor, Inl (AttributeError ''channels'')) \<and>
   get_joint ex_scene ex_registry detached_sensor ''A'' =
     (detached_sensor, Inl (AttributeError ''_armature_actuator''))"
  by (simp add: ex_init_detached get_joints_def armature_channels_def get_joint_def
      detached_sensor_def)

section \<open>The periodic update\<close>

text \<open>
  The loop of \<open>default_action\<close> reads a channel's name and its joint rotation and
  nothing else: the head position of a channel has no part in what is published.
\<close>

lemma default_action_channel_ignores_head:
  "default_action_channel s (ch\<lparr>head_pose := h\<rparr>) = default_action_channel s ch"
  by (simp add: default_action_channel_def Let_def
      split: actuator_ref.splits option.splits sum.splits)

text \<open>
  On a sensor that is unbound and stays so, the loop raises at its first channel, before
  it writes anything; only an armature without channels gets through.
\<close>

lemma default_action_unbound:
  assumes "armature s = Some a" and "armature_actuator s = PyNone"
    and "cd (o_name (sc a)) = None" and "o_channels (sc a) = Some chs"
  shows "default_action sc cd s =
           (s, if chs = [] then Inr () else Inl (AttributeError ''_dofs''))"
  using assms
  by (cases chs)
    (simp_all add: default_action_def bind_if_unbound_def get_armature_actuator_def
      default_action_channel_def Let_def)

text \<open>
  Claim C1, at the chain of the claim: joint \<open>A\<close> revolute about Y with rotation
  \<open>(0, 0.7, 0)\<close>, joint \<open>B\<close> prismatic along Z with head \<open>(0, 0, 1.5)\<close>, the actuator
  registered. One \<open>default_action\<close> on the freshly constructed sensor publishes
  \<open>A = 0.7\<close> and \<open>B = 0.0\<close> (component 2 of the rotation of \<open>B\<close>), while
  \<open>get_joint\<close> returns 0.7 for \<open>A\<close> and 1.5 for \<open>B\<close>.
\<close>

theorem default_action_prismatic_example:
  "init 1000 ex_scene 0 = Inr ex_sensor \<and>
   default_action ex_scene ex_registry ex_sensor =
     (ex_sensor\<lparr>armature_actuator := Bound ex_actuator,
                local_data := [(''A'', 7/10), (''B'', 0)]\<rparr>, Inr ()) \<and>
   snd (get_joint ex_scene ex_registry ex_sensor ''A'') = Inr (7/10) \<and>
   snd (get_joint ex_scene ex_registry ex_sensor ''B'') = Inr (3/2)"
  by (simp add: ex_init default_action_def ex_sensor_def ex_registry_def ex_scene_def
      bind_if_unbound_def get_armature_actuator_def default_action_channel_def
      ex_actuator_def list_index_def vec_index_def set_local_data_def joint_A_def joint_B_def
      get_joint_def resolve_joint_def enumerate_eq_zip upt_rec Let_def)

text \<open>
  Claim C2, at the same chain with no actuator registered: \<open>default_action\<close> on the
  unbound sensor raises \<open>AttributeError\<close> (\<open>None._dofs\<close>) at the first channel. The
  sensor, and with it \<open>local_data\<close>, is as before.
\<close>

theorem default_action_unbound_example:
  "default_action ex_scene Map.empty ex_sensor = (ex_sensor, Inl (AttributeError ''_dofs''))"
  by (simp add: default_action_def ex_sensor_def ex_scene_def
      bind_if_unbound_def get_armature_actuator_def default_action_channel_def Let_def)

end
